theory Spec2Isabelle
  imports Main
begin

section \<open>Values read from the instance provider\<close>

text \<open>
  The handlers of \<^verbatim>\<open>instanceRoutes.js\<close> (second router, the one mounted with the
  record store) read \<^verbatim>\<open>statusResponse.data?.instance?.state\<close>. The optional chaining
  never throws; what it yields is an arbitrary JSON value, or \<^verbatim>\<open>undefined\<close> when a
  link of the chain is absent. Only truthiness and strict equality with two string
  literals are ever asked of that value, so numbers are kept as integers (a fractional
  number is truthy like any non-zero integer) and arrays and objects are one value.
\<close>

datatype jsval = JUndefined | JNull | JBool bool | JNum int | JStr string | JObj

fun truthy :: "jsval \<Rightarrow> bool" where
  "truthy JUndefined = False"
| "truthy JNull = False"
| "truthy (JBool b) = b"
| "truthy (JNum n) = (n \<noteq> 0)"
| "truthy (JStr s) = (s \<noteq> [])"
| "truthy JObj = True"

datatype canonical_status = Disconnected | Connecting | Connected

text \<open>\<^verbatim>\<open>const evolutionStatus = statusResponse.data?.instance?.state || 'close';\<close>\<close>

definition evolutionStatus_of :: "jsval \<Rightarrow> jsval" where
  "evolutionStatus_of state = (if truthy state then state else JStr ''close'')"

text \<open>
  \<^verbatim>\<open>mappedStatus = evolutionStatus === 'open' ? 'connected'
               : evolutionStatus === 'connecting' ? 'connecting' : 'disconnected';\<close>
  The same ternary stands in \<^verbatim>\<open>POST /setup\<close> and in \<^verbatim>\<open>GET /sync-status/:user_id\<close>.
\<close>

definition mappedStatus_of :: "jsval \<Rightarrow> canonical_status" where
  "mappedStatus_of evolutionStatus =
     (if evolutionStatus = JStr ''open'' then Connected
      else if evolutionStatus = JStr ''connecting'' then Connecting
      else Disconnected)"

section \<open>The instance provider and the request's environment\<close>

text \<open>
  An axios call either resolves with the response's data or rejects with an error that
  may carry the provider's HTTP status (\<^verbatim>\<open>error.response?.status\<close>), the message of
  the provider's body (\<^verbatim>\<open>error.response?.data?.message\<close>) and its own message. An
  \<^verbatim>\<open>Error\<close> thrown by a handler itself is the same value with no response.
\<close>

datatype js_error =
  JsError (response_status: "nat option") (response_message: "string option")
    (error_message: string)

text \<open>\<^verbatim>\<open>details: error.response?.data?.message || error.message\<close>\<close>

definition details_of :: "js_error \<Rightarrow> string" where
  "details_of e =
     (case response_message e of
        Some m \<Rightarrow> if m \<noteq> [] then m else error_message e
      | None \<Rightarrow> error_message e)"

record profile =
  name :: "string option"
  profilePictureUrl :: "string option"

record qr_data =
  base64 :: "string option"
  qrcode_base64 :: "string option"

text \<open>
  The provider is outside the repository: its answers are parameters of a request. A
  connection-state poll and a profile fetch are indexed by the attempt of the polling
  loop that issues them, so that consecutive polls may answer differently.
\<close>

record remote =
  connectionState :: "string \<Rightarrow> nat \<Rightarrow> js_error + jsval"
  fetchProfile :: "string \<Rightarrow> nat \<Rightarrow> js_error + profile option"
  connect :: "string \<Rightarrow> js_error + qr_data option"
  create :: "string \<Rightarrow> js_error + unit"
  logout :: "string \<Rightarrow> js_error + unit"
  delete_instance :: "string \<Rightarrow> js_error + unit"

datatype log_level = Info | Warn | Error

datatype event =
    GetConnectionState string nat
  | GetFetchProfile string nat
  | GetConnect string
  | PostCreate string
  | DeleteLogout string
  | DeleteDelete string
  | Sleep nat
  | Log log_level

section \<open>The polling loop of sync-status\<close>

record poll_state =
  evolutionStatus :: jsval
  profileData :: "profile option"
  mappedStatus :: canonical_status
  trace :: "event list"

text \<open>
  \<^verbatim>\<open>let evolutionStatus = 'close'; let profileData = null; let mappedStatus = 'disconnected';\<close>
\<close>

definition poll_init :: "event list \<Rightarrow> poll_state" where
  "poll_init tr =
     \<lparr>evolutionStatus = JStr ''close'', profileData = None,
      mappedStatus = Disconnected, trace = tr\<rparr>"

text \<open>
  \<^verbatim>\<open>for (let i = 0; i < 5; i++) { try { ... break; } catch (apiError) { ... } await sleep(2000); }\<close>
  One call of \<open>poll_loop\<close> is the loop from counter \<open>i\<close> on. The \<^verbatim>\<open>try\<close> block covers
  both the poll and the profile fetch; the \<^verbatim>\<open>catch\<close> logs and sets
  \<^verbatim>\<open>evolutionStatus = 'close'\<close>; the sleep follows every attempt that did not break.
\<close>

function poll_loop :: "remote \<Rightarrow> string \<Rightarrow> nat \<Rightarrow> poll_state \<Rightarrow> poll_state" where
  "poll_loop rem nm i s =
     (if i < 5 then
        (case connectionState rem nm i of
           Inl apiError \<Rightarrow>
             poll_loop rem nm (i + 1)
               (s\<lparr>evolutionStatus := JStr ''close'',
                  trace := trace s @ [GetConnectionState nm i, Log Error, Sleep 2000]\<rparr>)
         | Inr state \<Rightarrow>
             if evolutionStatus_of state = JStr ''open'' then
               (case fetchProfile rem nm i of
                  Inl apiError \<Rightarrow>
                    poll_loop rem nm (i + 1)
                      (s\<lparr>evolutionStatus := JStr ''close'',
                         trace := trace s @
                           [GetConnectionState nm i, GetFetchProfile nm i, Log Error, Sleep 2000]\<rparr>)
                | Inr data \<Rightarrow>
                    s\<lparr>evolutionStatus := evolutionStatus_of state,
                      profileData := data,
                      mappedStatus := Connected,
                      trace := trace s @ [GetConnectionState nm i, GetFetchProfile nm i]\<rparr>)
             else
               poll_loop rem nm (i + 1)
                 (s\<lparr>evolutionStatus := evolutionStatus_of state,
                    trace := trace s @ [GetConnectionState nm i, Sleep 2000]\<rparr>))
      else s)"
  by pat_completeness auto
termination
  by (relation "measure (\<lambda>(rem, nm, i, s). 5 - i)") auto

declare poll_loop.simps [simp del]

fun is_poll :: "event \<Rightarrow> bool" where
  "is_poll (GetConnectionState nm i) = True"
| "is_poll e = False"

section \<open>The record store\<close>

text \<open>
  The store is the hosted database behind \<^verbatim>\<open>config/supabase.js\<close>: a table
  \<^verbatim>\<open>usuarios\<close> and a table \<^verbatim>\<open>whatsapp\<close>. Its client never throws: every call
  resolves to a pair \<^verbatim>\<open>{ data, error }\<close>. Timestamps are numbers; a nullable column is an
  option.
\<close>

record usuario =
  telefone :: "string option"

record whatsapp_row =
  row_id :: nat
  user_id :: string
  nome_instancia :: string
  numero :: string
  status :: canonical_status
  tipo_integracao :: string
  is_active :: bool
  qr_code :: "string option"
  profile_name :: "string option"
  profile_picture_url :: "string option"
  connection_attempts :: "int option"
  last_connection_at :: "nat option"
  atualizado_em :: "nat option"

record db =
  usuarios :: "(string \<times> usuario) list"
  whatsapp :: "whatsapp_row list"

datatype store_error = StoreFailure | NotSingleRow

fun store_message :: "store_error \<Rightarrow> string" where
  "store_message StoreFailure = ''store failure''"
| "store_message NotSingleRow = ''JSON object requested, multiple (or no) rows returned''"

text \<open>The places where a handler calls the store; each may fail on its own.\<close>

datatype store_call =
    SelUsuario | SelExisting | UpdStatus | InsertNew | UpdQrNew
  | SelSync | UpdSync | UpdQrSync
  | SelDisconnect | UpdDisconnect
  | SelDelete | UpdDelete

text \<open>\<^verbatim>\<open>.from('usuarios').select('telefone').eq('id', user_id)\<close>\<close>

definition usuario_rows :: "db \<Rightarrow> string \<Rightarrow> usuario list" where
  "usuario_rows d uid = map snd (filter (\<lambda>p. fst p = uid) (usuarios d))"

text \<open>\<^verbatim>\<open>.from('whatsapp').select(...).eq('user_id', user_id).eq('is_active', true)\<close>\<close>

definition active_rows :: "db \<Rightarrow> string \<Rightarrow> whatsapp_row list" where
  "active_rows d uid = filter (\<lambda>r. user_id r = uid \<and> is_active r) (whatsapp d)"

text \<open>
  \<^verbatim>\<open>.single()\<close> wants exactly one row; \<^verbatim>\<open>.maybeSingle()\<close> also accepts none, with
  \<^verbatim>\<open>data = null\<close> and no error. The flag is the failure of the call itself.
\<close>

definition single :: "bool \<Rightarrow> 'a list \<Rightarrow> 'a option \<times> store_error option" where
  "single fails rows =
     (if fails then (None, Some StoreFailure)
      else case rows of
        [r] \<Rightarrow> (Some r, None)
      | _ \<Rightarrow> (None, Some NotSingleRow))"

definition maybeSingle :: "bool \<Rightarrow> 'a list \<Rightarrow> 'a option \<times> store_error option" where
  "maybeSingle fails rows =
     (if fails then (None, Some StoreFailure)
      else case rows of
        [] \<Rightarrow> (None, None)
      | [r] \<Rightarrow> (Some r, None)
      | _ \<Rightarrow> (None, Some NotSingleRow))"

text \<open>\<^verbatim>\<open>.update(patch).eq('id', id)\<close>: every row with that id takes the patch.\<close>

definition update_by_id ::
  "nat \<Rightarrow> (whatsapp_row \<Rightarrow> whatsapp_row) \<Rightarrow> whatsapp_row list \<Rightarrow> whatsapp_row list" where
  "update_by_id i patch rows = map (\<lambda>r. if row_id r = i then patch r else r) rows"

definition store_update ::
  "bool \<Rightarrow> nat \<Rightarrow> (whatsapp_row \<Rightarrow> whatsapp_row) \<Rightarrow> db \<Rightarrow> db \<times> store_error option" where
  "store_update fails i patch d =
     (if fails then (d, Some StoreFailure)
      else (d\<lparr>whatsapp := update_by_id i patch (whatsapp d)\<rparr>, None))"

text \<open>\<^verbatim>\<open>.update(patch).eq('id', id).select().single()\<close>\<close>

definition store_update_returning ::
  "bool \<Rightarrow> nat \<Rightarrow> (whatsapp_row \<Rightarrow> whatsapp_row) \<Rightarrow> db
     \<Rightarrow> db \<times> whatsapp_row option \<times> store_error option" where
  "store_update_returning fails i patch d =
     (if fails then (d, None, Some StoreFailure)
      else
        let d' = d\<lparr>whatsapp := update_by_id i patch (whatsapp d)\<rparr> in
        case filter (\<lambda>r. row_id r = i) (whatsapp d') of
          [r] \<Rightarrow> (d', Some r, None)
        | _ \<Rightarrow> (d', None, Some NotSingleRow))"

text \<open>\<^verbatim>\<open>.insert(row).select().single()\<close>\<close>

definition store_insert ::
  "bool \<Rightarrow> whatsapp_row \<Rightarrow> db \<Rightarrow> db \<times> whatsapp_row option \<times> store_error option" where
  "store_insert fails r d =
     (if fails then (d, None, Some StoreFailure)
      else (d\<lparr>whatsapp := whatsapp d @ [r]\<rparr>, Some r, None))"

section \<open>Requests and responses\<close>

text \<open>
  What a request does not decide itself: the provider's answers, which store calls fail,
  the clock (\<^verbatim>\<open>new Date().toISOString()\<close>), the draw of \<^verbatim>\<open>Math.random()\<close> and the id the
  store assigns to an inserted row.
\<close>

record env =
  remote_api :: remote
  store_fails :: "store_call \<Rightarrow> bool"
  now :: nat
  random_draw :: nat
  new_id :: nat

text \<open>
  The JSON body keeps the fields the callers read; the human-readable \<^verbatim>\<open>message\<close> and
  \<^verbatim>\<open>error\<close> strings are left out.
\<close>

record response =
  http_status :: nat
  success :: bool
  instance_row :: "whatsapp_row option"
  qrcode :: "string option"
  statusChanged :: "bool option"
  details :: "string option"

record result =
  resp :: response
  db_after :: db
  calls :: "event list"

definition failure :: "nat \<Rightarrow> string option \<Rightarrow> response" where
  "failure code det =
     \<lparr>http_status = code, success = False, instance_row = None, qrcode = None,
      statusChanged = None, details = det\<rparr>"

definition succeeded ::
  "nat \<Rightarrow> whatsapp_row option \<Rightarrow> string option \<Rightarrow> bool option \<Rightarrow> response" where
  "succeeded code inst qr changed =
     \<lparr>http_status = code, success = True, instance_row = inst, qrcode = qr,
      statusChanged = changed, details = None\<rparr>"

text \<open>Truthiness of a nullable string, and \<^verbatim>\<open>x || null\<close> on one.\<close>

definition truthy_str :: "string option \<Rightarrow> bool" where
  "truthy_str x = (case x of None \<Rightarrow> False | Some s \<Rightarrow> s \<noteq> [])"

definition or_null :: "string option \<Rightarrow> string option" where
  "or_null x = (if truthy_str x then x else None)"

text \<open>\<^verbatim>\<open>qrResponse.data?.base64 || qrResponse.data?.qrcode?.base64\<close>\<close>

definition qrCode_of :: "qr_data option \<Rightarrow> string option" where
  "qrCode_of data =
     (case data of
        None \<Rightarrow> None
      | Some q \<Rightarrow> if truthy_str (base64 q) then base64 q else qrcode_base64 q)"

section \<open>GET /sync-status/:user_id\<close>

text \<open>\<^verbatim>\<open>(instance.connection_attempts || 0) + 1\<close>\<close>

definition attempts_or_0 :: "int option \<Rightarrow> int" where
  "attempts_or_0 a = (case a of None \<Rightarrow> 0 | Some n \<Rightarrow> n)"

text \<open>
  \<^verbatim>\<open>updateData\<close>, as the patch the store applies: status, \<^verbatim>\<open>atualizado_em\<close>,
  \<^verbatim>\<open>connection_attempts\<close>, \<^verbatim>\<open>last_connection_at\<close>, \<^verbatim>\<open>profile_name\<close> and
  \<^verbatim>\<open>profile_picture_url\<close> are all written on every call.
\<close>

definition updateData ::
  "env \<Rightarrow> whatsapp_row \<Rightarrow> canonical_status \<Rightarrow> profile option \<Rightarrow> whatsapp_row \<Rightarrow> whatsapp_row" where
  "updateData en inst mapped pdata r =
     r\<lparr>status := mapped,
       atualizado_em := Some (now en),
       connection_attempts :=
         Some (if mapped = Disconnected then attempts_or_0 (connection_attempts inst) + 1 else 0),
       last_connection_at :=
         (if mapped = Connected then Some (now en) else last_connection_at inst),
       profile_name := or_null (case pdata of None \<Rightarrow> None | Some p \<Rightarrow> name p),
       profile_picture_url :=
         or_null (case pdata of None \<Rightarrow> None | Some p \<Rightarrow> profilePictureUrl p)\<rparr>"

text \<open>
  The pairing code after the update: fetched only when the mapped status is
  \<open>disconnected\<close>, stored when truthy, every failure caught and logged.
\<close>

definition sync_qr ::
  "env \<Rightarrow> whatsapp_row \<Rightarrow> canonical_status \<Rightarrow> db \<Rightarrow> db \<times> string option \<times> event list" where
  "sync_qr en inst mapped d =
     (if mapped = Disconnected then
        (case connect (remote_api en) (nome_instancia inst) of
           Inl qrError \<Rightarrow> (d, None, [GetConnect (nome_instancia inst), Log Error])
         | Inr data \<Rightarrow>
             let qrCode = qrCode_of data in
             if truthy_str qrCode then
               (fst (store_update (store_fails en UpdQrSync) (row_id inst)
                       (\<lambda>r. r\<lparr>qr_code := qrCode\<rparr>) d),
                qrCode, [GetConnect (nome_instancia inst)])
             else (d, qrCode, [GetConnect (nome_instancia inst)]))
      else (d, None, []))"

definition sync_status :: "env \<Rightarrow> db \<Rightarrow> string \<Rightarrow> result" where
  "sync_status en d uid =
     (case maybeSingle (store_fails en SelSync) (active_rows d uid) of
        (Some inst, None) \<Rightarrow>
          let s = poll_loop (remote_api en) (nome_instancia inst) 0 (poll_init []);
              oldStatus = status inst;
              mapped = mappedStatus_of (evolutionStatus s);
              patch = updateData en inst mapped (profileData s);
              (d1, updatedInstance, updateError) =
                store_update_returning (store_fails en UpdSync) (row_id inst) patch d;
              tr1 = trace s @ (if updateError \<noteq> None then [Log Error] else []);
              (d2, qrCode, tr2) = sync_qr en inst mapped d1
          in \<lparr>resp = succeeded 200
                 (Some (case updatedInstance of Some u \<Rightarrow> u | None \<Rightarrow> patch inst))
                 qrCode (Some (oldStatus \<noteq> mapped)),
              db_after = d2, calls = tr1 @ tr2\<rparr>
      | _ \<Rightarrow> \<lparr>resp = failure 404 None, db_after = d, calls = []\<rparr>)"

section \<open>DELETE /disconnect/:user_id\<close>

definition disconnect :: "env \<Rightarrow> db \<Rightarrow> string \<Rightarrow> result" where
  "disconnect en d uid =
     (case single (store_fails en SelDisconnect) (active_rows d uid) of
        (Some inst, None) \<Rightarrow>
          (case logout (remote_api en) (nome_instancia inst) of
             Inl error \<Rightarrow>
               \<lparr>resp = failure 500 (Some (details_of error)), db_after = d,
                calls = [DeleteLogout (nome_instancia inst), Log Error]\<rparr>
           | Inr _ \<Rightarrow>
               \<lparr>resp = succeeded 200 None None None,
                db_after =
                  fst (store_update (store_fails en UpdDisconnect) (row_id inst)
                    (\<lambda>r. r\<lparr>status := Disconnected, profile_name := None,
                            profile_picture_url := None, qr_code := None,
                            atualizado_em := Some (now en)\<rparr>) d),
                calls = [DeleteLogout (nome_instancia inst), Log Info]\<rparr>)
      | _ \<Rightarrow> \<lparr>resp = failure 404 None, db_after = d, calls = []\<rparr>)"

section \<open>DELETE /delete/:user_id\<close>

text \<open>
  The provider's delete stands in a \<^verbatim>\<open>try\<close> of its own: a rejection is caught, and
  logged as a warning unless the provider answered 404.
\<close>

definition delete_remote :: "env \<Rightarrow> string \<Rightarrow> event list" where
  "delete_remote en nm =
     (case delete_instance (remote_api en) nm of
        Inr _ \<Rightarrow> [DeleteDelete nm, Log Info]
      | Inl evolutionError \<Rightarrow>
          if response_status evolutionError \<noteq> Some 404 then [DeleteDelete nm, Log Warn]
          else [DeleteDelete nm])"

definition delete_user :: "env \<Rightarrow> db \<Rightarrow> string \<Rightarrow> result" where
  "delete_user en d uid =
     (case single (store_fails en SelDelete) (active_rows d uid) of
        (Some inst, None) \<Rightarrow>
          \<lparr>resp = succeeded 200 None None None,
           db_after =
             fst (store_update (store_fails en UpdDelete) (row_id inst)
               (\<lambda>r. r\<lparr>is_active := False, status := Disconnected,
                       atualizado_em := Some (now en)\<rparr>) d),
           calls = delete_remote en (nome_instancia inst) @ [Log Info]\<rparr>
      | _ \<Rightarrow> \<lparr>resp = failure 404 None, db_after = d, calls = []\<rparr>)"

section \<open>POST /setup\<close>

text \<open>Decimal digits of a number, as a template literal prints it.\<close>

definition digit_char :: "nat \<Rightarrow> char" where
  "digit_char n = ''0123456789'' ! (n mod 10)"

function show_nat :: "nat \<Rightarrow> string" where
  "show_nat n = (if n < 10 then [digit_char n] else show_nat (n div 10) @ [digit_char n])"
  by pat_completeness auto
termination
  by (relation "measure (\<lambda>n. n)") auto

declare show_nat.simps [simp del]

text \<open>
  \<^verbatim>\<open>Math.floor(1000 + Math.random() * 9000)\<close> is an integer from 1000 to 9999; the
  draw picks it.
\<close>

definition randomDigits :: "env \<Rightarrow> nat" where
  "randomDigits en = 1000 + random_draw en mod 9000"

definition instanceName_of :: "env \<Rightarrow> string \<Rightarrow> string" where
  "instanceName_of en tel = tel @ ''_'' @ show_nat (randomDigits en)"

text \<open>
  The idempotent path: an active record exists. One \<^verbatim>\<open>try\<close> covers the status poll,
  the status update and the pairing-code fetch; its \<^verbatim>\<open>catch\<close> logs and answers with
  the record and a null pairing code. The update's result is not looked at. The fetched
  pairing code goes into the response only.
\<close>

definition setup_existing :: "env \<Rightarrow> db \<Rightarrow> whatsapp_row \<Rightarrow> result" where
  "setup_existing en d existingInstance =
     (let nm = nome_instancia existingInstance in
      case connectionState (remote_api en) nm 0 of
        Inl syncError \<Rightarrow>
          \<lparr>resp = succeeded 200 (Some existingInstance) None None, db_after = d,
           calls = [Log Info, GetConnectionState nm 0, Log Error]\<rparr>
      | Inr state \<Rightarrow>
          let mapped = mappedStatus_of (evolutionStatus_of state);
              d1 = fst (store_update (store_fails en UpdStatus) (row_id existingInstance)
                     (\<lambda>r. r\<lparr>status := mapped, atualizado_em := Some (now en)\<rparr>) d);
              existing' = existingInstance\<lparr>status := mapped\<rparr>
          in if mapped = Disconnected then
               (case connect (remote_api en) nm of
                  Inl syncError \<Rightarrow>
                    \<lparr>resp = succeeded 200 (Some existing') None None, db_after = d1,
                     calls = [Log Info, GetConnectionState nm 0, Log Info, GetConnect nm,
                              Log Error]\<rparr>
                | Inr data \<Rightarrow>
                    \<lparr>resp = succeeded 200 (Some existing') (qrCode_of data) None,
                     db_after = d1,
                     calls = [Log Info, GetConnectionState nm 0, Log Info, GetConnect nm]\<rparr>)
             else
               \<lparr>resp = succeeded 200 (Some existing') None None, db_after = d1,
                calls = [Log Info, GetConnectionState nm 0]\<rparr>)"

text \<open>
  The row handed to \<^verbatim>\<open>insert\<close>; the columns it does not name are null and the id is
  the store's.
\<close>

definition new_row :: "env \<Rightarrow> string \<Rightarrow> string \<Rightarrow> string \<Rightarrow> whatsapp_row" where
  "new_row en uid instanceName tel =
     \<lparr>row_id = new_id en, user_id = uid, nome_instancia = instanceName, numero = tel,
      status = Disconnected, tipo_integracao = ''WHATSAPP-BAILEYS'', is_active = True,
      qr_code = None, profile_name = None, profile_picture_url = None,
      connection_attempts = Some 1, last_connection_at = None, atualizado_em = None\<rparr>"

text \<open>Step 6 of the creation path: the first pairing code, best-effort.\<close>

definition setup_qr ::
  "env \<Rightarrow> string \<Rightarrow> whatsapp_row \<Rightarrow> db \<Rightarrow> db \<times> string option \<times> event list" where
  "setup_qr en instanceName newInstance d =
     (case connect (remote_api en) instanceName of
        Inl qrError \<Rightarrow> (d, None, [GetConnect instanceName, Log Error])
      | Inr data \<Rightarrow>
          let qrCodeBase64 = qrCode_of data in
          if truthy_str qrCodeBase64 then
            (fst (store_update (store_fails en UpdQrNew) (row_id newInstance)
                    (\<lambda>r. r\<lparr>qr_code := qrCodeBase64\<rparr>) d),
             qrCodeBase64, [GetConnect instanceName, Log Info])
          else (d, qrCodeBase64, [GetConnect instanceName]))"

text \<open>
  The creation path: no active record. A rejected \<^verbatim>\<open>create\<close> and a failed insert both
  reach the outer \<^verbatim>\<open>catch\<close>, which answers 500.
\<close>

definition setup_create :: "env \<Rightarrow> db \<Rightarrow> string \<Rightarrow> string \<Rightarrow> result" where
  "setup_create en d uid tel =
     (let instanceName = instanceName_of en tel in
      case create (remote_api en) instanceName of
        Inl error \<Rightarrow>
          \<lparr>resp = failure 500 (Some (details_of error)), db_after = d,
           calls = [Log Info, PostCreate instanceName, Log Error]\<rparr>
      | Inr _ \<Rightarrow>
          (case store_insert (store_fails en InsertNew)
                  (new_row en uid instanceName tel) d of
             (d1, Some newInstance, None) \<Rightarrow>
               let (d2, qrCodeBase64, tr) = setup_qr en instanceName newInstance d1
               in \<lparr>resp = succeeded 201 (Some newInstance) qrCodeBase64 None, db_after = d2,
                   calls = [Log Info, PostCreate instanceName, Log Info, Log Info] @ tr\<rparr>
           | (d1, _, Some insertError) \<Rightarrow>
               \<lparr>resp = failure 500
                  (Some (''Erro ao salvar no banco: '' @ store_message insertError)),
                db_after = d1,
                calls = [Log Info, PostCreate instanceName, Log Info, Log Error, Log Error]\<rparr>
           | (d1, None, None) \<Rightarrow>
               \<lparr>resp = failure 500 None, db_after = d1,
                calls = [Log Info, PostCreate instanceName, Log Info, Log Error]\<rparr>))"

definition setup_route :: "env \<Rightarrow> db \<Rightarrow> string option \<Rightarrow> result" where
  "setup_route en d body_user_id =
     (case body_user_id of
        None \<Rightarrow> \<lparr>resp = failure 400 None, db_after = d, calls = []\<rparr>
      | Some uid \<Rightarrow>
          if uid = [] then \<lparr>resp = failure 400 None, db_after = d, calls = []\<rparr>
          else
            (case single (store_fails en SelUsuario) (usuario_rows d uid) of
               (Some usuario, None) \<Rightarrow>
                 (case telefone usuario of
                    None \<Rightarrow> \<lparr>resp = failure 400 None, db_after = d, calls = [Log Warn]\<rparr>
                  | Some tel \<Rightarrow>
                      if tel = [] then
                        \<lparr>resp = failure 400 None, db_after = d, calls = [Log Warn]\<rparr>
                      else
                        (case maybeSingle (store_fails en SelExisting) (active_rows d uid) of
                           (_, Some checkError) \<Rightarrow>
                             \<lparr>resp = failure 500 (Some (store_message checkError)),
                              db_after = d, calls = [Log Error, Log Error]\<rparr>
                         | (Some existingInstance, None) \<Rightarrow>
                             setup_existing en d existingInstance
                         | (None, None) \<Rightarrow> setup_create en d uid tel))
             | _ \<Rightarrow> \<lparr>resp = failure 404 None, db_after = d, calls = [Log Error]\<rparr>))"

section \<open>The schedule of a polling loop\<close>

text \<open>
  An attempt ends the loop when its poll reads \<open>open\<close> and the profile fetch that
  follows resolves: only then is the \<^verbatim>\<open>break\<close> reached.
\<close>

definition breaks :: "remote \<Rightarrow> string \<Rightarrow> nat \<Rightarrow> bool" where
  "breaks rem nm i =
     (case connectionState rem nm i of
        Inl e \<Rightarrow> False
      | Inr state \<Rightarrow>
          evolutionStatus_of state = JStr ''open'' \<and>
          (case fetchProfile rem nm i of Inl e \<Rightarrow> False | Inr data \<Rightarrow> True))"

fun is_sleep :: "event \<Rightarrow> bool" where
  "is_sleep (Sleep ms) = True"
| "is_sleep e = False"

definition polls_and_sleeps :: "event list \<Rightarrow> event list" where
  "polls_and_sleeps tr = filter (\<lambda>e. is_poll e \<or> is_sleep e) tr"

text \<open>
  What a bounded retry policy prescribes for a list of attempts: each attempt polls once;
  the attempt that is the last one is followed by nothing, every other attempt by one
  sleep of 2000 milliseconds.
\<close>

fun schedule :: "(nat \<Rightarrow> bool) \<Rightarrow> string \<Rightarrow> nat list \<Rightarrow> event list" where
  "schedule last_one nm [] = []"
| "schedule last_one nm (j # js) =
     (if last_one j then [GetConnectionState nm j]
      else [GetConnectionState nm j, Sleep 2000] @ schedule last_one nm js)"

section \<open>Example requests\<close>

definition example_row :: whatsapp_row where
  "example_row =
     \<lparr>row_id = 7, user_id = ''u1'', nome_instancia = ''5511999990000_1234'',
      numero = ''5511999990000'', status = Connected,
      tipo_integracao = ''WHATSAPP-BAILEYS'', is_active = True, qr_code = Some ''OLD'',
      profile_name = Some ''Ana'', profile_picture_url = Some ''http://pic'',
      connection_attempts = Some 3, last_connection_at = Some 10, atualizado_em = Some 10\<rparr>"

text \<open>User \<open>u1\<close> has an active record, user \<open>u2\<close> has a phone number and no record.\<close>

definition example_db :: db where
  "example_db =
     \<lparr>usuarios = [(''u1'', \<lparr>telefone = Some ''5511999990000''\<rparr>),
                  (''u2'', \<lparr>telefone = Some ''5511888880000''\<rparr>)],
      whatsapp = [example_row]\<rparr>"

definition timeout_error :: js_error where
  "timeout_error = JsError None None ''timeout of 8000ms exceeded''"

definition not_found_error :: js_error where
  "not_found_error =
     JsError (Some 404) (Some ''Not Found'') ''Request failed with status code 404''"

text \<open>A provider that rejects every call with the same error.\<close>

definition remote_down :: "js_error \<Rightarrow> remote" where
  "remote_down e =
     \<lparr>connectionState = (\<lambda>nm i. Inl e), fetchProfile = (\<lambda>nm i. Inl e),
      connect = (\<lambda>nm. Inl e), create = (\<lambda>nm. Inl e), logout = (\<lambda>nm. Inl e),
      delete_instance = (\<lambda>nm. Inl e)\<rparr>"

text \<open>A provider that answers every call and always reports the same state.\<close>

definition remote_up :: "jsval \<Rightarrow> remote" where
  "remote_up state =
     \<lparr>connectionState = (\<lambda>nm i. Inr state),
      fetchProfile =
        (\<lambda>nm i. Inr (Some \<lparr>name = Some ''Ana'', profilePictureUrl = Some ''http://pic''\<rparr>)),
      connect = (\<lambda>nm. Inr (Some \<lparr>base64 = Some ''ABC123'', qrcode_base64 = None\<rparr>)),
      create = (\<lambda>nm. Inr ()), logout = (\<lambda>nm. Inr ()),
      delete_instance = (\<lambda>nm. Inr ())\<rparr>"

text \<open>A provider that reports \<open>connecting\<close> before attempt \<open>k\<close> and \<open>open\<close> from it on.\<close>

definition remote_open_from :: "nat \<Rightarrow> remote" where
  "remote_open_from k =
     (remote_up (JStr ''open''))
       \<lparr>connectionState :=
          (\<lambda>nm i. if i < k then Inr (JStr ''connecting'') else Inr (JStr ''open''))\<rparr>"

text \<open>A provider that always reports \<open>open\<close> and never delivers the profile.\<close>

definition remote_open_no_profile :: remote where
  "remote_open_no_profile =
     (remote_up (JStr ''open''))\<lparr>fetchProfile := (\<lambda>nm i. Inl timeout_error)\<rparr>"

definition no_fault :: "store_call \<Rightarrow> bool" where
  "no_fault c = False"

definition fault_at :: "store_call \<Rightarrow> store_call \<Rightarrow> bool" where
  "fault_at c c' = (c' = c)"

definition example_env :: "remote \<Rightarrow> (store_call \<Rightarrow> bool) \<Rightarrow> env" where
  "example_env rem fails =
     \<lparr>remote_api = rem, store_fails = fails, now = 100, random_draw = 234, new_id = 8\<rparr>"

section \<open>Evaluation on concrete requests\<close>

lemmas example_defs =
  example_env_def example_db_def example_row_def no_fault_def fault_at_def remote_up_def
  remote_down_def remote_open_from_def remote_open_no_profile_def timeout_error_def
  not_found_error_def

lemmas handler_defs =
  sync_status_def sync_qr_def updateData_def disconnect_def delete_user_def delete_remote_def
  setup_route_def setup_existing_def setup_create_def setup_qr_def new_row_def
  instanceName_of_def randomDigits_def digit_char_def
  maybeSingle_def single_def store_update_def store_update_returning_def store_insert_def
  update_by_id_def active_rows_def usuario_rows_def failure_def succeeded_def
  truthy_str_def or_null_def qrCode_of_def attempts_or_0_def details_of_def
  poll_init_def evolutionStatus_of_def mappedStatus_of_def Let_def case_prod_unfold

lemma example_active: "active_rows example_db ''u1'' = [example_row]"
  by (simp add: active_rows_def example_db_def example_row_def)

lemma example_no_active: "active_rows example_db ''u2'' = []"
  by (simp add: active_rows_def example_db_def example_row_def)

lemma example_instanceName:
  "instanceName_of (example_env rem fails) ''5511888880000'' = ''5511888880000_1234''"
  by (simp add: instanceName_of_def randomDigits_def example_env_def show_nat.simps
      digit_char_def)

lemma upt5: "[0..<5] = [0, 1, 2, 3, 4::nat]"
  by (simp add: upt_rec numeral_eq_Suc)

section \<open>The status mapping\<close>

text \<open>
  Claim C6. The status mapping is a total function of the raw remote state: the string
  \<open>open\<close> maps to \<open>connected\<close>, the string \<open>connecting\<close> to \<open>connecting\<close>, and every
  other value (an absent state, null, \<open>close\<close>, any other string, number, boolean or
  object) to \<open>disconnected\<close>. The function has no error result: it yields one of the
  three canonical statuses on every input.
\<close>

theorem mapStatus_total:
  "mappedStatus_of (evolutionStatus_of raw) =
     (if raw = JStr ''open'' then Connected
      else if raw = JStr ''connecting'' then Connecting
      else Disconnected)"
  by (cases raw) (auto simp: mappedStatus_of_def evolutionStatus_of_def)

theorem mapStatus_total_witness:
  "mappedStatus_of (evolutionStatus_of (JStr ''open'')) = Connected
   \<and> mappedStatus_of (evolutionStatus_of (JStr ''connecting'')) = Connecting
   \<and> mappedStatus_of (evolutionStatus_of (JStr ''close'')) = Disconnected
   \<and> mappedStatus_of (evolutionStatus_of JUndefined) = Disconnected"
  using mapStatus_total [of "JStr ''open''"] mapStatus_total [of "JStr ''connecting''"]
    mapStatus_total [of "JStr ''close''"] mapStatus_total [of JUndefined]
  by simp

section \<open>Facts about the store\<close>

lemma filter_map_same:
  "(\<And>x. P (g x) = P x) \<Longrightarrow> filter P (map g xs) = map g (filter P xs)"
  by (induction xs) auto

text \<open>A patch that keeps owner and active flag commutes with reading a user's records.\<close>

lemma active_rows_update:
  assumes "\<And>r. user_id (p r) = user_id r" and "\<And>r. is_active (p r) = is_active r"
  shows "active_rows (d\<lparr>whatsapp := update_by_id i p (whatsapp d)\<rparr>) uid =
           map (\<lambda>r. if row_id r = i then p r else r) (active_rows d uid)"
  unfolding active_rows_def update_by_id_def
  by (simp add: filter_map_same assms)

lemma active_row_in_table:
  assumes "active_rows d uid = [inst]"
  shows "inst \<in> set (whatsapp d)"
proof -
  have "inst \<in> set (active_rows d uid)"
    using assms by simp
  then show ?thesis
    by (simp add: active_rows_def)
qed

lemma store_update_db:
  "fst (store_update fails i p d) =
     (if fails then d else d\<lparr>whatsapp := update_by_id i p (whatsapp d)\<rparr>)"
  by (simp add: store_update_def)

lemma store_update_returning_db:
  "fst (store_update_returning fails i p d) =
     (if fails then d else d\<lparr>whatsapp := update_by_id i p (whatsapp d)\<rparr>)"
  by (simp add: store_update_returning_def Let_def split: list.splits)

section \<open>The polling loop\<close>

lemma poll_loop_schedule:
  "polls_and_sleeps (trace (poll_loop rem nm i s)) =
     polls_and_sleeps (trace s) @ schedule (breaks rem nm) nm [i..<5]"
proof (induction rem nm i s rule: poll_loop.induct)
  case (1 rem nm i s)
  show ?case
  proof (cases "i < 5")
    case False
    then show ?thesis
      by (simp add: poll_loop.simps [of rem nm i s])
  next
    case True
    then have upt: "[i..<5] = i # [Suc i..<5]"
      by (simp add: upt_conv_Cons)
    show ?thesis
    proof (cases "connectionState rem nm i")
      case (Inl apiError)
      then have "\<not> breaks rem nm i"
        by (simp add: breaks_def)
      then show ?thesis
        using True Inl "1.IH"(1) [OF True Inl]
        by (simp add: poll_loop.simps [of rem nm i s] upt polls_and_sleeps_def)
    next
      case (Inr state)
      show ?thesis
      proof (cases "evolutionStatus_of state = JStr ''open''")
        case False
        then have "\<not> breaks rem nm i"
          using Inr by (simp add: breaks_def)
        then show ?thesis
          using True Inr False "1.IH"(3) [OF True Inr False]
          by (simp add: poll_loop.simps [of rem nm i s] upt polls_and_sleeps_def)
      next
        case isopen: True
        show ?thesis
        proof (cases "fetchProfile rem nm i")
          case (Inl apiError)
          then have "\<not> breaks rem nm i"
            using Inr by (simp add: breaks_def)
          then show ?thesis
            using True Inr isopen Inl "1.IH"(2) [OF True Inr isopen Inl]
            by (simp add: poll_loop.simps [of rem nm i s] upt polls_and_sleeps_def)
        next
          case (Inr data)
          then have "breaks rem nm i"
            using \<open>connectionState rem nm i = Inr state\<close> isopen by (simp add: breaks_def)
          then show ?thesis
            using True \<open>connectionState rem nm i = Inr state\<close> isopen Inr
            by (simp add: poll_loop.simps [of rem nm i s] upt polls_and_sleeps_def)
        qed
      qed
    qed
  qed
qed

lemma length_schedule: "length (filter is_poll (schedule b nm js)) \<le> length js"
  by (induction js) auto

lemma length_polls:
  "length (filter is_poll tr) = length (filter is_poll (polls_and_sleeps tr))"
proof -
  have "filter is_poll (polls_and_sleeps tr) = filter is_poll tr"
    unfolding polls_and_sleeps_def by (induction tr) auto
  then show ?thesis by simp
qed

lemma polls_and_sleeps_append:
  "polls_and_sleeps (a @ b) = polls_and_sleeps a @ polls_and_sleeps b"
  by (simp add: polls_and_sleeps_def)

text \<open>The profile is set only by the attempt that breaks, which leaves \<open>open\<close> behind.\<close>

lemma poll_loop_profile:
  "evolutionStatus (poll_loop rem nm i s) \<noteq> JStr ''open'' \<Longrightarrow>
     profileData (poll_loop rem nm i s) = profileData s"
proof (induction rem nm i s rule: poll_loop.induct)
  case (1 rem nm i s)
  show ?case
    using "1.prems" "1.IH"
    by (subst poll_loop.simps, subst (asm) (1) poll_loop.simps)
      (auto split: sum.splits if_splits)
qed

lemma poll_loop_all_fail:
  "(\<And>j. j < 5 \<Longrightarrow> isl (connectionState rem nm j)) \<Longrightarrow>
     evolutionStatus (poll_loop rem nm i s) =
       (if i < 5 then JStr ''close'' else evolutionStatus s)"
proof (induction rem nm i s rule: poll_loop.induct)
  case (1 rem nm i s)
  show ?case
  proof (cases "i < 5")
    case False
    then show ?thesis by (simp add: poll_loop.simps [of rem nm i s])
  next
    case True
    from "1.prems" [OF True] obtain e where e: "connectionState rem nm i = Inl e"
      by (cases "connectionState rem nm i") auto
    show ?thesis
      using True e "1.IH"(1) [OF True e "1.prems"]
      by (simp add: poll_loop.simps [of rem nm i s])
  qed
qed

section \<open>Sync\<close>

lemma updateData_keeps:
  "user_id (updateData en inst m pd r) = user_id r"
  "is_active (updateData en inst m pd r) = is_active r"
  "row_id (updateData en inst m pd r) = row_id r"
  by (simp_all add: updateData_def)

lemma sync_qr_db:
  "fst (sync_qr en inst mapped d) = d \<or>
   (\<exists>q. fst (sync_qr en inst mapped d) =
      d\<lparr>whatsapp := update_by_id (row_id inst) (\<lambda>r. r\<lparr>qr_code := q\<rparr>) (whatsapp d)\<rparr>)"
  by (auto simp: sync_qr_def store_update_def Let_def split: sum.splits)

lemma sync_qr_calls:
  "polls_and_sleeps (snd (snd (sync_qr en inst mapped d))) = []"
  by (auto simp: sync_qr_def polls_and_sleeps_def Let_def split: sum.splits)

lemma sync_status_response:
  assumes "active_rows d uid = [inst]" and "\<not> store_fails en SelSync"
  shows "http_status (resp (sync_status en d uid)) = 200
       \<and> success (resp (sync_status en d uid))"
  using assms
  by (simp add: sync_status_def maybeSingle_def Let_def case_prod_unfold succeeded_def)

lemma sync_status_calls:
  assumes "active_rows d uid = [inst]" and "\<not> store_fails en SelSync"
  shows "polls_and_sleeps (calls (sync_status en d uid)) =
           polls_and_sleeps
             (trace (poll_loop (remote_api en) (nome_instancia inst) 0 (poll_init [])))"
  using assms sync_qr_calls
  by (simp add: sync_status_def maybeSingle_def Let_def case_prod_unfold
      polls_and_sleeps_append)
    (simp add: polls_and_sleeps_def)

lemma sync_status_db:
  assumes "active_rows d uid = [inst]" and "\<not> store_fails en SelSync"
    and "\<not> store_fails en UpdSync"
  shows "db_after (sync_status en d uid) =
           fst (sync_qr en inst
             (mappedStatus_of (evolutionStatus
                (poll_loop (remote_api en) (nome_instancia inst) 0 (poll_init []))))
             (d\<lparr>whatsapp := update_by_id (row_id inst)
                 (updateData en inst
                    (mappedStatus_of (evolutionStatus
                       (poll_loop (remote_api en) (nome_instancia inst) 0 (poll_init []))))
                    (profileData
                       (poll_loop (remote_api en) (nome_instancia inst) 0 (poll_init []))))
                 (whatsapp d)\<rparr>))"
  using assms
  by (simp add: sync_status_def maybeSingle_def store_update_returning_db Let_def
      case_prod_unfold)

text \<open>
  When the store takes the update, the user's active record after the call is the
  record read at the start with \<^verbatim>\<open>updateData\<close> applied, up to the pairing code.
\<close>

lemma sync_status_persisted:
  assumes "active_rows d uid = [inst]" and "\<not> store_fails en SelSync"
    and "\<not> store_fails en UpdSync"
  shows "\<exists>q. active_rows (db_after (sync_status en d uid)) uid =
           [(updateData en inst
               (mappedStatus_of (evolutionStatus
                  (poll_loop (remote_api en) (nome_instancia inst) 0 (poll_init []))))
               (profileData (poll_loop (remote_api en) (nome_instancia inst) 0 (poll_init [])))
               inst)\<lparr>qr_code := q\<rparr>]"
proof -
  let ?s = "poll_loop (remote_api en) (nome_instancia inst) 0 (poll_init [])"
  let ?m = "mappedStatus_of (evolutionStatus ?s)"
  let ?p = "updateData en inst ?m (profileData ?s)"
  let ?d1 = "d\<lparr>whatsapp := update_by_id (row_id inst) ?p (whatsapp d)\<rparr>"
  have d1: "active_rows ?d1 uid = [?p inst]"
    by (simp add: active_rows_update updateData_keeps assms(1))
  have db: "db_after (sync_status en d uid) = fst (sync_qr en inst ?m ?d1)"
    by (rule sync_status_db [OF assms])
  from sync_qr_db [of en inst ?m ?d1] show ?thesis
  proof
    assume "fst (sync_qr en inst ?m ?d1) = ?d1"
    then have "active_rows (db_after (sync_status en d uid)) uid =
        [(?p inst)\<lparr>qr_code := qr_code (?p inst)\<rparr>]"
      using db d1 by simp
    then show ?thesis by blast
  next
    assume "\<exists>q. fst (sync_qr en inst ?m ?d1) =
       ?d1\<lparr>whatsapp := update_by_id (row_id inst) (\<lambda>r. r\<lparr>qr_code := q\<rparr>) (whatsapp ?d1)\<rparr>"
    then obtain q where q: "fst (sync_qr en inst ?m ?d1) =
       ?d1\<lparr>whatsapp := update_by_id (row_id inst) (\<lambda>r. r\<lparr>qr_code := q\<rparr>) (whatsapp ?d1)\<rparr>"
      by blast
    have "active_rows (db_after (sync_status en d uid)) uid = [(?p inst)\<lparr>qr_code := q\<rparr>]"
      unfolding db q
      by (subst active_rows_update) (simp_all add: d1 updateData_keeps)
    then show ?thesis by blast
  qed
qed

text \<open>
  Claim C1, as the code has it. For every Sync invocation on a user with an active record,
  the loop issues at most 5 connection-state polls, and its polls and sleeps follow the
  retry schedule over the attempts 0 to 4: every attempt polls once and is followed by one
  sleep of 2000 milliseconds, except the first attempt whose poll reads \<open>open\<close> and whose
  profile fetch succeeds, which ends the polling. An \<open>open\<close> reading whose profile fetch
  fails does not end it: the attempt counts as a failed one.
\<close>

theorem sync_polls_schedule:
  assumes "active_rows d uid = [inst]" and "\<not> store_fails en SelSync"
  shows "length (filter is_poll (calls (sync_status en d uid))) \<le> 5
       \<and> polls_and_sleeps (calls (sync_status en d uid)) =
           schedule (breaks (remote_api en) (nome_instancia inst)) (nome_instancia inst) [0..<5]"
proof -
  have sched: "polls_and_sleeps (calls (sync_status en d uid)) =
      schedule (breaks (remote_api en) (nome_instancia inst)) (nome_instancia inst) [0..<5]"
  proof -
    have "polls_and_sleeps (trace (poll_init [])) = []"
      by (simp add: poll_init_def polls_and_sleeps_def)
    then show ?thesis
      by (simp add: sync_status_calls [OF assms] poll_loop_schedule)
  qed
  have "length (filter is_poll (calls (sync_status en d uid))) \<le> length [0..<5::nat]"
    unfolding length_polls [of "calls (sync_status en d uid)"] sched
    by (rule length_schedule)
  with sched show ?thesis by simp
qed

text \<open>
  The provider reports \<open>connecting\<close> twice and \<open>open\<close> at the third attempt: three polls,
  two sleeps between them, none after the last.
\<close>

theorem sync_polls_schedule_witness:
  "active_rows example_db ''u1'' = [example_row]
   \<and> polls_and_sleeps
        (calls (sync_status (example_env (remote_open_from 2) no_fault) example_db ''u1'')) =
      [GetConnectionState ''5511999990000_1234'' 0, Sleep 2000,
       GetConnectionState ''5511999990000_1234'' 1, Sleep 2000,
       GetConnectionState ''5511999990000_1234'' 2]
   \<and> length (filter is_poll
        (calls (sync_status (example_env (remote_open_from 2) no_fault) example_db ''u1''))) \<le> 5"
  using sync_polls_schedule [OF example_active, of "example_env (remote_open_from 2) no_fault"]
  by (simp add: example_env_def no_fault_def remote_open_from_def remote_up_def breaks_def
      evolutionStatus_of_def example_row_def upt5 example_active)

text \<open>
  Claim C1 as stated fails: the first poll reads \<open>open\<close>, the profile fetch is rejected,
  and the loop goes on to poll four more times.
\<close>

theorem sync_open_counterexample:
  "active_rows example_db ''u1'' = [example_row]
   \<and> connectionState remote_open_no_profile (nome_instancia example_row) 0 = Inr (JStr ''open'')
   \<and> filter is_poll
        (calls (sync_status (example_env remote_open_no_profile no_fault) example_db ''u1'')) =
      [GetConnectionState ''5511999990000_1234'' 0, GetConnectionState ''5511999990000_1234'' 1,
       GetConnectionState ''5511999990000_1234'' 2, GetConnectionState ''5511999990000_1234'' 3,
       GetConnectionState ''5511999990000_1234'' 4]"
  by (simp add: example_defs handler_defs poll_loop.simps)

text \<open>
  Claim C2, as the code has it. Every Sync invocation writes \<open>profile_name\<close> and
  \<open>profile_picture_url\<close>: when the store takes the update and the mapped status is not
  \<open>connected\<close>, both are null in the persisted record, whatever they were before; a value
  that is not null is written only when the mapped status is \<open>connected\<close>.
\<close>

theorem sync_profile_cleared:
  assumes "active_rows d uid = [inst]" and "\<not> store_fails en SelSync"
    and "\<not> store_fails en UpdSync"
  shows "\<exists>row. active_rows (db_after (sync_status en d uid)) uid = [row]
           \<and> (status row \<noteq> Connected \<longrightarrow>
                profile_name row = None \<and> profile_picture_url row = None)"
proof -
  let ?s = "poll_loop (remote_api en) (nome_instancia inst) 0 (poll_init [])"
  obtain q where q: "active_rows (db_after (sync_status en d uid)) uid =
      [(updateData en inst (mappedStatus_of (evolutionStatus ?s)) (profileData ?s) inst)
         \<lparr>qr_code := q\<rparr>]"
    using sync_status_persisted [OF assms] by blast
  have "mappedStatus_of (evolutionStatus ?s) \<noteq> Connected \<Longrightarrow> profileData ?s = None"
    using poll_loop_profile [of "remote_api en" "nome_instancia inst" 0 "poll_init []"]
    by (auto simp: mappedStatus_of_def poll_init_def split: if_splits)
  then show ?thesis
    unfolding q by (simp add: updateData_def or_null_def truthy_str_def)
qed

theorem sync_profile_cleared_witness:
  "active_rows example_db ''u1'' = [example_row]
   \<and> map status (active_rows (db_after (sync_status
        (example_env (remote_up (JStr ''connecting'')) no_fault) example_db ''u1'')) ''u1'')
       = [Connecting]
   \<and> map profile_name (active_rows (db_after (sync_status
        (example_env (remote_up (JStr ''connecting'')) no_fault) example_db ''u1'')) ''u1'')
       = [None]
   \<and> map profile_picture_url (active_rows (db_after (sync_status
        (example_env (remote_up (JStr ''connecting'')) no_fault) example_db ''u1'')) ''u1'')
       = [None]"
  using sync_profile_cleared [OF example_active,
      of "example_env (remote_up (JStr ''connecting'')) no_fault"]
  by (simp add: example_defs handler_defs poll_loop.simps)

text \<open>
  Claim C2 as stated fails: the record holds a profile name and picture, the provider
  reports \<open>close\<close>, and after the call both fields are null.
\<close>

theorem sync_profile_counterexample:
  "map profile_name (active_rows example_db ''u1'') = [Some ''Ana'']
   \<and> map profile_picture_url (active_rows example_db ''u1'') = [Some ''http://pic'']
   \<and> map status (active_rows (db_after (sync_status
        (example_env (remote_up (JStr ''close'')) no_fault) example_db ''u1'')) ''u1'')
       = [Disconnected]
   \<and> map profile_name (active_rows (db_after (sync_status
        (example_env (remote_up (JStr ''close'')) no_fault) example_db ''u1'')) ''u1'')
       = [None]
   \<and> map profile_picture_url (active_rows (db_after (sync_status
        (example_env (remote_up (JStr ''close'')) no_fault) example_db ''u1'')) ''u1'')
       = [None]"
  by (simp add: example_defs handler_defs poll_loop.simps)

text \<open>
  Claim C8. For every Sync invocation on a user with an active record whose
  connection-state polls all fail, the handler returns (it is a total function: the loop's
  termination is proved, and the answer is 200), and, the store taking the update, the
  persisted status is \<open>disconnected\<close> and \<open>connection_attempts\<close> is its value before the
  call plus 1 (a null counter counting as 0).
\<close>

theorem sync_all_polls_fail:
  assumes "active_rows d uid = [inst]" and "\<not> store_fails en SelSync"
    and "\<not> store_fails en UpdSync"
    and "\<And>i. i < 5 \<Longrightarrow> isl (connectionState (remote_api en) (nome_instancia inst) i)"
  shows "http_status (resp (sync_status en d uid)) = 200
       \<and> (\<exists>row. active_rows (db_after (sync_status en d uid)) uid = [row]
             \<and> status row = Disconnected
             \<and> connection_attempts row = Some (attempts_or_0 (connection_attempts inst) + 1))"
proof -
  let ?s = "poll_loop (remote_api en) (nome_instancia inst) 0 (poll_init [])"
  obtain q where q: "active_rows (db_after (sync_status en d uid)) uid =
      [(updateData en inst (mappedStatus_of (evolutionStatus ?s)) (profileData ?s) inst)
         \<lparr>qr_code := q\<rparr>]"
    using sync_status_persisted [OF assms(1-3)] by blast
  have "evolutionStatus ?s = JStr ''close''"
    using poll_loop_all_fail [of "remote_api en" "nome_instancia inst" 0 "poll_init []"] assms(4)
    by simp
  then have "mappedStatus_of (evolutionStatus ?s) = Disconnected"
    by (simp add: mappedStatus_of_def)
  then show ?thesis
    unfolding q using sync_status_response [OF assms(1,2)]
    by (simp add: updateData_def)
qed

theorem sync_all_polls_fail_witness:
  "active_rows example_db ''u1'' = [example_row]
   \<and> connection_attempts example_row = Some 3
   \<and> http_status (resp (sync_status (example_env (remote_down timeout_error) no_fault)
        example_db ''u1'')) = 200
   \<and> map status (active_rows (db_after (sync_status
        (example_env (remote_down timeout_error) no_fault) example_db ''u1'')) ''u1'')
       = [Disconnected]
   \<and> map connection_attempts (active_rows (db_after (sync_status
        (example_env (remote_down timeout_error) no_fault) example_db ''u1'')) ''u1'')
       = [Some 4]"
  using sync_all_polls_fail [OF example_active,
      of "example_env (remote_down timeout_error) no_fault"]
  by (simp add: example_defs handler_defs poll_loop.simps)

text \<open>
  Claim C10. For every Sync invocation whose mapped status is \<open>connecting\<close>, the persisted
  \<open>connection_attempts\<close> is 0, as it is for \<open>connected\<close>; the counter is incremented only
  when the mapped status is \<open>disconnected\<close> (the store taking the update).
\<close>

theorem sync_attempts_counter:
  assumes "active_rows d uid = [inst]" and "\<not> store_fails en SelSync"
    and "\<not> store_fails en UpdSync"
  shows "\<exists>row. active_rows (db_after (sync_status en d uid)) uid = [row]
           \<and> (status row = Connecting \<longrightarrow> connection_attempts row = Some 0)
           \<and> (status row = Connected \<longrightarrow> connection_attempts row = Some 0)
           \<and> (status row = Disconnected \<longrightarrow>
                connection_attempts row = Some (attempts_or_0 (connection_attempts inst) + 1))"
proof -
  let ?s = "poll_loop (remote_api en) (nome_instancia inst) 0 (poll_init [])"
  obtain q where q: "active_rows (db_after (sync_status en d uid)) uid =
      [(updateData en inst (mappedStatus_of (evolutionStatus ?s)) (profileData ?s) inst)
         \<lparr>qr_code := q\<rparr>]"
    using sync_status_persisted [OF assms] by blast
  show ?thesis
    unfolding q by (simp add: updateData_def)
qed

theorem sync_attempts_counter_witness:
  "active_rows example_db ''u1'' = [example_row]
   \<and> connection_attempts example_row = Some 3
   \<and> map status (active_rows (db_after (sync_status
        (example_env (remote_up (JStr ''connecting'')) no_fault) example_db ''u1'')) ''u1'')
       = [Connecting]
   \<and> map connection_attempts (active_rows (db_after (sync_status
        (example_env (remote_up (JStr ''connecting'')) no_fault) example_db ''u1'')) ''u1'')
       = [Some 0]"
  using sync_attempts_counter [OF example_active,
      of "example_env (remote_up (JStr ''connecting'')) no_fault"]
  by (simp add: example_defs handler_defs poll_loop.simps)

section \<open>Disconnect\<close>

text \<open>
  Claim C3. For every Disconnect invocation on a user with an active record: if the
  provider's logout is rejected, the store is left exactly as it was (no field of any
  record changes) and the answer is 500, not successful, carrying the provider's detail;
  if the logout succeeds (and the store takes the update), the answer is 200 and the
  user's record is persisted with status \<open>disconnected\<close> and \<open>profile_name\<close>,
  \<open>profile_picture_url\<close> and \<open>qr_code\<close> null.
\<close>

theorem disconnect_logout:
  assumes "active_rows d uid = [inst]" and "\<not> store_fails en SelDisconnect"
  shows "(logout (remote_api en) (nome_instancia inst) = Inl e \<longrightarrow>
            db_after (disconnect en d uid) = d
            \<and> http_status (resp (disconnect en d uid)) = 500
            \<and> \<not> success (resp (disconnect en d uid))
            \<and> details (resp (disconnect en d uid)) = Some (details_of e))
       \<and> (logout (remote_api en) (nome_instancia inst) = Inr () \<and>
            \<not> store_fails en UpdDisconnect \<longrightarrow>
            http_status (resp (disconnect en d uid)) = 200
            \<and> active_rows (db_after (disconnect en d uid)) uid =
                [inst\<lparr>status := Disconnected, profile_name := None,
                      profile_picture_url := None, qr_code := None,
                      atualizado_em := Some (now en)\<rparr>])"
proof (cases "logout (remote_api en) (nome_instancia inst)")
  case (Inl error)
  then show ?thesis
    using assms by (simp add: disconnect_def single_def failure_def)
next
  case (Inr u)
  then show ?thesis
    using assms
    by (simp add: disconnect_def single_def succeeded_def store_update_db active_rows_update)
qed

theorem disconnect_logout_witness:
  "active_rows example_db ''u1'' = [example_row]
   \<and> db_after (disconnect (example_env (remote_down timeout_error) no_fault) example_db ''u1'')
       = example_db
   \<and> http_status (resp (disconnect (example_env (remote_down timeout_error) no_fault)
        example_db ''u1'')) = 500
   \<and> details (resp (disconnect (example_env (remote_down timeout_error) no_fault)
        example_db ''u1'')) = Some ''timeout of 8000ms exceeded''
   \<and> active_rows (db_after (disconnect (example_env (remote_up JNull) no_fault)
        example_db ''u1'')) ''u1''
       = [example_row\<lparr>status := Disconnected, profile_name := None,
            profile_picture_url := None, qr_code := None, atualizado_em := Some 100\<rparr>]"
  using disconnect_logout [OF example_active,
      where en = "example_env (remote_down timeout_error) no_fault" and e = timeout_error]
    disconnect_logout [OF example_active, where en = "example_env (remote_up JNull) no_fault"]
  by (simp add: example_defs handler_defs)

section \<open>Delete\<close>

lemma inactive_after_delete:
  assumes "active_rows d uid = [inst]"
  shows "active_rows (d\<lparr>whatsapp := update_by_id (row_id inst)
             (\<lambda>r. r\<lparr>is_active := False, status := Disconnected, atualizado_em := t\<rparr>)
             (whatsapp d)\<rparr>) uid = []"
proof -
  have "r = inst" if "r \<in> set (whatsapp d)" "user_id r = uid" "is_active r" for r
  proof -
    have "r \<in> set (active_rows d uid)"
      using that by (simp add: active_rows_def)
    then show ?thesis
      using assms by simp
  qed
  then show ?thesis
    by (auto simp: active_rows_def update_by_id_def filter_empty_conv)
qed

text \<open>
  Claim C4. For every Delete invocation on a user with an active record, whatever the
  provider's delete call does (success, a 404 rejection, any other rejection), the answer
  is 200 and successful and the soft delete is persisted (the store taking the update):
  the record read at the start is in the table with \<open>is_active = false\<close> and status
  \<open>disconnected\<close>, and the user has no active record left.
\<close>

theorem delete_soft_delete:
  assumes "active_rows d uid = [inst]" and "\<not> store_fails en SelDelete"
    and "\<not> store_fails en UpdDelete"
  shows "http_status (resp (delete_user en d uid)) = 200
       \<and> success (resp (delete_user en d uid))
       \<and> active_rows (db_after (delete_user en d uid)) uid = []
       \<and> inst\<lparr>is_active := False, status := Disconnected, atualizado_em := Some (now en)\<rparr>
           \<in> set (whatsapp (db_after (delete_user en d uid)))"
proof -
  have "inst\<lparr>is_active := False, status := Disconnected, atualizado_em := Some (now en)\<rparr>
      \<in> set (update_by_id (row_id inst)
           (\<lambda>r. r\<lparr>is_active := False, status := Disconnected, atualizado_em := Some (now en)\<rparr>)
           (whatsapp d))"
    using active_row_in_table [OF assms(1)] by (force simp: update_by_id_def)
  then show ?thesis
    using assms inactive_after_delete [OF assms(1)]
    by (simp add: delete_user_def single_def succeeded_def store_update_db)
qed

text \<open>The provider answers 404 in the first request and times out in the second.\<close>

theorem delete_soft_delete_witness:
  "active_rows example_db ''u1'' = [example_row]
   \<and> http_status (resp (delete_user (example_env (remote_down not_found_error) no_fault)
        example_db ''u1'')) = 200
   \<and> map is_active (whatsapp (db_after (delete_user
        (example_env (remote_down not_found_error) no_fault) example_db ''u1''))) = [False]
   \<and> http_status (resp (delete_user (example_env (remote_down timeout_error) no_fault)
        example_db ''u1'')) = 200
   \<and> map is_active (whatsapp (db_after (delete_user
        (example_env (remote_down timeout_error) no_fault) example_db ''u1''))) = [False]
   \<and> map status (whatsapp (db_after (delete_user
        (example_env (remote_down timeout_error) no_fault) example_db ''u1''))) = [Disconnected]"
  using delete_soft_delete [OF example_active,
      of "example_env (remote_down not_found_error) no_fault"]
    delete_soft_delete [OF example_active,
      of "example_env (remote_down timeout_error) no_fault"]
  by (simp add: example_defs handler_defs)

section \<open>Setup\<close>

lemma setup_qr_db:
  "fst (setup_qr en nm newInstance d) = d \<or>
   (\<exists>q. fst (setup_qr en nm newInstance d) =
      d\<lparr>whatsapp := update_by_id (row_id newInstance) (\<lambda>r. r\<lparr>qr_code := q\<rparr>) (whatsapp d)\<rparr>)"
  by (auto simp: setup_qr_def store_update_def Let_def split: sum.splits)

lemma setup_route_known:
  assumes "uid \<noteq> []" and "usuario_rows d uid = [u]" and "telefone u = Some tel"
    and "tel \<noteq> []" and "\<not> store_fails en SelUsuario"
  shows "setup_route en d (Some uid) =
     (case maybeSingle (store_fails en SelExisting) (active_rows d uid) of
        (_, Some checkError) \<Rightarrow>
          \<lparr>resp = failure 500 (Some (store_message checkError)),
           db_after = d, calls = [Log Error, Log Error]\<rparr>
      | (Some existingInstance, None) \<Rightarrow> setup_existing en d existingInstance
      | (None, None) \<Rightarrow> setup_create en d uid tel)"
  using assms by (simp add: setup_route_def single_def)

lemma setup_route_create:
  assumes "uid \<noteq> []" and "usuario_rows d uid = [u]" and "telefone u = Some tel"
    and "tel \<noteq> []" and "active_rows d uid = []"
    and "\<not> store_fails en SelUsuario" and "\<not> store_fails en SelExisting"
  shows "setup_route en d (Some uid) = setup_create en d uid tel"
  using assms by (simp add: setup_route_known [OF assms(1-4,6)] maybeSingle_def)

lemma setup_existing_status:
  "http_status (resp (setup_existing en d inst)) = 200
   \<and> success (resp (setup_existing en d inst))"
  by (simp add: setup_existing_def succeeded_def Let_def split: sum.splits)

lemma setup_create_inserted:
  assumes "active_rows d uid = []"
    and "create (remote_api en) (instanceName_of en tel) = Inr ()"
    and "\<not> store_fails en InsertNew"
  shows "http_status (resp (setup_create en d uid tel)) = 201
       \<and> success (resp (setup_create en d uid tel))
       \<and> length (whatsapp (db_after (setup_create en d uid tel))) = Suc (length (whatsapp d))
       \<and> (\<exists>q. active_rows (db_after (setup_create en d uid tel)) uid =
             [(new_row en uid (instanceName_of en tel) tel)\<lparr>qr_code := q\<rparr>])"
proof -
  let ?nm = "instanceName_of en tel"
  let ?row = "new_row en uid ?nm tel"
  let ?d1 = "d\<lparr>whatsapp := whatsapp d @ [?row]\<rparr>"
  have res: "setup_create en d uid tel =
      \<lparr>resp = succeeded 201 (Some ?row) (fst (snd (setup_qr en ?nm ?row ?d1))) None,
       db_after = fst (setup_qr en ?nm ?row ?d1),
       calls = [Log Info, PostCreate ?nm, Log Info, Log Info]
         @ snd (snd (setup_qr en ?nm ?row ?d1))\<rparr>"
    using assms(2,3) by (simp add: setup_create_def store_insert_def Let_def case_prod_unfold)
  have d1: "active_rows ?d1 uid = [?row]"
    using assms(1) by (simp add: active_rows_def new_row_def)
  from setup_qr_db [of en ?nm ?row ?d1]
  have "length (whatsapp (fst (setup_qr en ?nm ?row ?d1))) = Suc (length (whatsapp d))
      \<and> (\<exists>q. active_rows (fst (setup_qr en ?nm ?row ?d1)) uid = [?row\<lparr>qr_code := q\<rparr>])"
  proof
    assume same: "fst (setup_qr en ?nm ?row ?d1) = ?d1"
    have "active_rows ?d1 uid = [?row\<lparr>qr_code := qr_code ?row\<rparr>]"
      using d1 by simp
    then have "\<exists>q. active_rows ?d1 uid = [?row\<lparr>qr_code := q\<rparr>]"
      by (rule exI)
    then show ?thesis unfolding same by simp
  next
    assume "\<exists>q. fst (setup_qr en ?nm ?row ?d1) =
        ?d1\<lparr>whatsapp := update_by_id (row_id ?row) (\<lambda>r. r\<lparr>qr_code := q\<rparr>) (whatsapp ?d1)\<rparr>"
    then obtain q where q: "fst (setup_qr en ?nm ?row ?d1) =
        ?d1\<lparr>whatsapp := update_by_id (row_id ?row) (\<lambda>r. r\<lparr>qr_code := q\<rparr>) (whatsapp ?d1)\<rparr>"
      by blast
    have "active_rows (fst (setup_qr en ?nm ?row ?d1)) uid = [?row\<lparr>qr_code := q\<rparr>]"
      unfolding q by (subst active_rows_update) (simp_all add: d1)
    moreover have "length (whatsapp (fst (setup_qr en ?nm ?row ?d1))) = Suc (length (whatsapp d))"
      unfolding q by (simp add: update_by_id_def)
    ultimately show ?thesis by blast
  qed
  then show ?thesis
    unfolding res by (simp add: succeeded_def)
qed

text \<open>
  Claim C5. For every Setup invocation on a known user with a phone number and no active
  record: if the provider's create call is rejected, the answer is 500 and the store is
  left as it was, so no record is inserted; if the call succeeds (and the store takes the
  insert), the answer is 201, the table has one row more, and the user's active record is
  the new one, with status \<open>disconnected\<close>, \<open>connection_attempts = 1\<close> and the synthesized
  instance name.
\<close>

theorem setup_creation_path:
  assumes "uid \<noteq> []" and "usuario_rows d uid = [u]" and "telefone u = Some tel"
    and "tel \<noteq> []" and "active_rows d uid = []"
    and "\<not> store_fails en SelUsuario" and "\<not> store_fails en SelExisting"
  shows "(create (remote_api en) (instanceName_of en tel) = Inl e \<longrightarrow>
            db_after (setup_route en d (Some uid)) = d
            \<and> http_status (resp (setup_route en d (Some uid))) = 500
            \<and> \<not> success (resp (setup_route en d (Some uid))))
       \<and> (create (remote_api en) (instanceName_of en tel) = Inr () \<and>
            \<not> store_fails en InsertNew \<longrightarrow>
            http_status (resp (setup_route en d (Some uid))) = 201
            \<and> success (resp (setup_route en d (Some uid)))
            \<and> length (whatsapp (db_after (setup_route en d (Some uid)))) =
                Suc (length (whatsapp d))
            \<and> (\<exists>row. active_rows (db_after (setup_route en d (Some uid))) uid = [row]
                  \<and> status row = Disconnected \<and> connection_attempts row = Some 1
                  \<and> nome_instancia row = instanceName_of en tel))"
proof -
  have fails: "create (remote_api en) (instanceName_of en tel) = Inl e \<Longrightarrow>
      db_after (setup_create en d uid tel) = d
      \<and> http_status (resp (setup_create en d uid tel)) = 500
      \<and> \<not> success (resp (setup_create en d uid tel))"
    by (simp add: setup_create_def failure_def Let_def)
  have ok: "http_status (resp (setup_create en d uid tel)) = 201
      \<and> success (resp (setup_create en d uid tel))
      \<and> length (whatsapp (db_after (setup_create en d uid tel))) = Suc (length (whatsapp d))
      \<and> (\<exists>row. active_rows (db_after (setup_create en d uid tel)) uid = [row]
            \<and> status row = Disconnected \<and> connection_attempts row = Some 1
            \<and> nome_instancia row = instanceName_of en tel)"
    if c: "create (remote_api en) (instanceName_of en tel) = Inr ()"
      and i: "\<not> store_fails en InsertNew"
  proof -
    from setup_create_inserted [OF assms(5) c i] obtain q where
      "http_status (resp (setup_create en d uid tel)) = 201"
      "success (resp (setup_create en d uid tel))"
      "length (whatsapp (db_after (setup_create en d uid tel))) = Suc (length (whatsapp d))"
      "active_rows (db_after (setup_create en d uid tel)) uid =
         [(new_row en uid (instanceName_of en tel) tel)\<lparr>qr_code := q\<rparr>]"
      by blast
    then show ?thesis by (simp add: new_row_def)
  qed
  show ?thesis
    unfolding setup_route_create [OF assms] using fails ok by blast
qed

text \<open>
  User \<open>u2\<close> has a phone number and no record: with the provider down nothing is stored,
  with the provider up the new record is the user's active one.
\<close>

theorem setup_creation_path_witness:
  "usuario_rows example_db ''u2'' = [\<lparr>telefone = Some ''5511888880000''\<rparr>]
   \<and> active_rows example_db ''u2'' = []
   \<and> db_after (setup_route (example_env (remote_down timeout_error) no_fault) example_db
        (Some ''u2'')) = example_db
   \<and> http_status (resp (setup_route (example_env (remote_down timeout_error) no_fault)
        example_db (Some ''u2''))) = 500
   \<and> http_status (resp (setup_route (example_env (remote_up JNull) no_fault)
        example_db (Some ''u2''))) = 201
   \<and> map status (active_rows (db_after (setup_route
        (example_env (remote_up JNull) no_fault) example_db (Some ''u2''))) ''u2'')
       = [Disconnected]
   \<and> map connection_attempts (active_rows (db_after (setup_route
        (example_env (remote_up JNull) no_fault) example_db (Some ''u2''))) ''u2'')
       = [Some 1]
   \<and> map nome_instancia (active_rows (db_after (setup_route
        (example_env (remote_up JNull) no_fault) example_db (Some ''u2''))) ''u2'')
       = [''5511888880000_1234'']"
proof -
  have u: "usuario_rows example_db ''u2'' = [\<lparr>telefone = Some ''5511888880000''\<rparr>]"
    by (simp add: usuario_rows_def example_db_def)
  have ne: "''u2'' \<noteq> []" "''5511888880000'' \<noteq> []"
    by simp_all
  have t: "telefone \<lparr>telefone = Some ''5511888880000''\<rparr> = Some ''5511888880000''"
    by simp
  have down: "\<not> store_fails (example_env (remote_down timeout_error) no_fault) SelUsuario"
      "\<not> store_fails (example_env (remote_down timeout_error) no_fault) SelExisting"
    and up: "\<not> store_fails (example_env (remote_up JNull) no_fault) SelUsuario"
      "\<not> store_fails (example_env (remote_up JNull) no_fault) SelExisting"
      "\<not> store_fails (example_env (remote_up JNull) no_fault) InsertNew"
    by (simp_all add: example_env_def no_fault_def)
  have c_down: "create (remote_api (example_env (remote_down timeout_error) no_fault))
      (instanceName_of (example_env (remote_down timeout_error) no_fault) ''5511888880000'')
      = Inl timeout_error"
    and c_up: "create (remote_api (example_env (remote_up JNull) no_fault))
      (instanceName_of (example_env (remote_up JNull) no_fault) ''5511888880000'') = Inr ()"
    by (simp_all add: example_env_def remote_down_def remote_up_def)
  from setup_creation_path [OF ne(1) u t ne(2) example_no_active down, of timeout_error]
    setup_creation_path [OF ne(1) u t ne(2) example_no_active up(1,2)]
  show ?thesis
    using u example_no_active c_down c_up up(3)
    by (auto simp: example_instanceName)
qed

text \<open>
  Claim C7, at a request where the code departs from it. User \<open>u1\<close> has an active record
  whose stored pairing code is \<open>OLD\<close>; the provider reports \<open>close\<close> and hands out the
  pairing code \<open>ABC123\<close>. Setup answers 200 with the fresh code in the response, and the
  record it leaves in the store has the mapped status \<open>disconnected\<close> and still the
  pairing code \<open>OLD\<close>: the fetched code is not persisted.
\<close>

theorem setup_existing_qr_not_stored:
  "qrcode (resp (setup_route (example_env (remote_up (JStr ''close'')) no_fault) example_db
      (Some ''u1''))) = Some ''ABC123''
   \<and> http_status (resp (setup_route (example_env (remote_up (JStr ''close'')) no_fault)
      example_db (Some ''u1''))) = 200
   \<and> map status (active_rows (db_after (setup_route
      (example_env (remote_up (JStr ''close'')) no_fault) example_db (Some ''u1''))) ''u1'')
     = [Disconnected]
   \<and> map qr_code (active_rows (db_after (setup_route
      (example_env (remote_up (JStr ''close'')) no_fault) example_db (Some ''u1''))) ''u1'')
     = [Some ''OLD'']"
  by (simp add: example_defs handler_defs)

section \<open>Store failures\<close>

text \<open>
  Claim C9, as the code has it. A failure of the store is answered 500 only where Setup
  looks at it: the lookup of the active record and the insert of the new record (after
  which the store is as before). A failed lookup of the user in Setup, and of the active
  record in Sync, Disconnect and Delete, is answered 404. The updates are not fatal: with
  an active record found, Setup's existing-record path answers 200, Sync answers 200 and
  successful, Disconnect (the logout accepted) and Delete answer 200 and successful,
  whether or not the store takes their updates.
\<close>

theorem store_failure_responses:
  "(store_fails en SelSync \<longrightarrow> http_status (resp (sync_status en d uid)) = 404)
 \<and> (store_fails en SelDisconnect \<longrightarrow> http_status (resp (disconnect en d uid)) = 404)
 \<and> (store_fails en SelDelete \<longrightarrow> http_status (resp (delete_user en d uid)) = 404)
 \<and> (uid \<noteq> [] \<and> store_fails en SelUsuario \<longrightarrow>
      http_status (resp (setup_route en d (Some uid))) = 404)
 \<and> (uid \<noteq> [] \<and> usuario_rows d uid = [u] \<and> telefone u = Some tel \<and> tel \<noteq> [] \<and>
      \<not> store_fails en SelUsuario \<and> store_fails en SelExisting \<longrightarrow>
      http_status (resp (setup_route en d (Some uid))) = 500)
 \<and> (uid \<noteq> [] \<and> usuario_rows d uid = [u] \<and> telefone u = Some tel \<and> tel \<noteq> [] \<and>
      active_rows d uid = [] \<and> \<not> store_fails en SelUsuario \<and> \<not> store_fails en SelExisting \<and>
      create (remote_api en) (instanceName_of en tel) = Inr () \<and> store_fails en InsertNew \<longrightarrow>
      http_status (resp (setup_route en d (Some uid))) = 500
      \<and> db_after (setup_route en d (Some uid)) = d)
 \<and> (uid \<noteq> [] \<and> usuario_rows d uid = [u] \<and> telefone u = Some tel \<and> tel \<noteq> [] \<and>
      active_rows d uid = [inst] \<and> \<not> store_fails en SelUsuario \<and>
      \<not> store_fails en SelExisting \<longrightarrow>
      http_status (resp (setup_route en d (Some uid))) = 200)
 \<and> (active_rows d uid = [inst] \<and> \<not> store_fails en SelSync \<longrightarrow>
      http_status (resp (sync_status en d uid)) = 200 \<and> success (resp (sync_status en d uid)))
 \<and> (active_rows d uid = [inst] \<and> \<not> store_fails en SelDisconnect \<and>
      logout (remote_api en) (nome_instancia inst) = Inr () \<longrightarrow>
      http_status (resp (disconnect en d uid)) = 200 \<and> success (resp (disconnect en d uid)))
 \<and> (active_rows d uid = [inst] \<and> \<not> store_fails en SelDelete \<longrightarrow>
      http_status (resp (delete_user en d uid)) = 200 \<and> success (resp (delete_user en d uid)))"
proof -
  have sel_sync: "store_fails en SelSync \<longrightarrow>
      http_status (resp (sync_status en d uid)) = 404"
    by (simp add: sync_status_def maybeSingle_def failure_def)
  have sel_disc: "store_fails en SelDisconnect \<longrightarrow>
      http_status (resp (disconnect en d uid)) = 404"
    by (simp add: disconnect_def single_def failure_def)
  have sel_del: "store_fails en SelDelete \<longrightarrow>
      http_status (resp (delete_user en d uid)) = 404"
    by (simp add: delete_user_def single_def failure_def)
  have sel_usr: "uid \<noteq> [] \<and> store_fails en SelUsuario \<longrightarrow>
      http_status (resp (setup_route en d (Some uid))) = 404"
    by (simp add: setup_route_def single_def failure_def)
  have sel_existing: "uid \<noteq> [] \<and> usuario_rows d uid = [u] \<and> telefone u = Some tel \<and>
      tel \<noteq> [] \<and> \<not> store_fails en SelUsuario \<and> store_fails en SelExisting \<longrightarrow>
      http_status (resp (setup_route en d (Some uid))) = 500"
    by (simp add: setup_route_known maybeSingle_def failure_def)
  have ins: "uid \<noteq> [] \<and> usuario_rows d uid = [u] \<and> telefone u = Some tel \<and> tel \<noteq> [] \<and>
      active_rows d uid = [] \<and> \<not> store_fails en SelUsuario \<and> \<not> store_fails en SelExisting \<and>
      create (remote_api en) (instanceName_of en tel) = Inr () \<and> store_fails en InsertNew \<longrightarrow>
      http_status (resp (setup_route en d (Some uid))) = 500
      \<and> db_after (setup_route en d (Some uid)) = d"
    by (simp add: setup_route_create setup_create_def store_insert_def failure_def Let_def)
  have existing: "uid \<noteq> [] \<and> usuario_rows d uid = [u] \<and> telefone u = Some tel \<and>
      tel \<noteq> [] \<and> active_rows d uid = [inst] \<and> \<not> store_fails en SelUsuario \<and>
      \<not> store_fails en SelExisting \<longrightarrow>
      http_status (resp (setup_route en d (Some uid))) = 200"
    by (simp add: setup_route_known maybeSingle_def setup_existing_status)
  have upd_sync: "active_rows d uid = [inst] \<and> \<not> store_fails en SelSync \<longrightarrow>
      http_status (resp (sync_status en d uid)) = 200 \<and> success (resp (sync_status en d uid))"
    using sync_status_response [of d uid inst en] by blast
  have upd_disc: "active_rows d uid = [inst] \<and> \<not> store_fails en SelDisconnect \<and>
      logout (remote_api en) (nome_instancia inst) = Inr () \<longrightarrow>
      http_status (resp (disconnect en d uid)) = 200 \<and> success (resp (disconnect en d uid))"
    by (simp add: disconnect_def single_def succeeded_def)
  have upd_del: "active_rows d uid = [inst] \<and> \<not> store_fails en SelDelete \<longrightarrow>
      http_status (resp (delete_user en d uid)) = 200 \<and> success (resp (delete_user en d uid))"
    by (simp add: delete_user_def single_def succeeded_def)
  show ?thesis
    by (intro conjI sel_sync sel_disc sel_del sel_usr sel_existing ins existing
        upd_sync upd_disc upd_del)
qed

text \<open>One request for each place where the store can fail.\<close>

theorem store_failure_responses_witness:
  "http_status (resp (sync_status (example_env (remote_up JNull) (fault_at SelSync))
      example_db ''u1'')) = 404
   \<and> http_status (resp (disconnect (example_env (remote_up JNull) (fault_at SelDisconnect))
      example_db ''u1'')) = 404
   \<and> http_status (resp (delete_user (example_env (remote_up JNull) (fault_at SelDelete))
      example_db ''u1'')) = 404
   \<and> http_status (resp (setup_route (example_env (remote_up JNull) (fault_at SelUsuario))
      example_db (Some ''u2''))) = 404
   \<and> http_status (resp (setup_route (example_env (remote_up JNull) (fault_at SelExisting))
      example_db (Some ''u2''))) = 500
   \<and> http_status (resp (setup_route (example_env (remote_up JNull) (fault_at InsertNew))
      example_db (Some ''u2''))) = 500
   \<and> db_after (setup_route (example_env (remote_up JNull) (fault_at InsertNew))
      example_db (Some ''u2'')) = example_db
   \<and> http_status (resp (setup_route (example_env (remote_up JNull) (fault_at UpdStatus))
      example_db (Some ''u1''))) = 200
   \<and> http_status (resp (sync_status (example_env (remote_up JNull) (fault_at UpdSync))
      example_db ''u1'')) = 200
   \<and> http_status (resp (disconnect (example_env (remote_up JNull) (fault_at UpdDisconnect))
      example_db ''u1'')) = 200
   \<and> http_status (resp (delete_user (example_env (remote_up JNull) (fault_at UpdDelete))
      example_db ''u1'')) = 200"
proof -
  have u1: "usuario_rows example_db ''u1'' = [\<lparr>telefone = Some ''5511999990000''\<rparr>]"
    and u2: "usuario_rows example_db ''u2'' = [\<lparr>telefone = Some ''5511888880000''\<rparr>]"
    by (simp_all add: usuario_rows_def example_db_def)
  note facts = u1 u2 example_active example_no_active
  note envs = example_env_def fault_at_def remote_up_def
  show ?thesis
    using
      store_failure_responses [where en = "example_env (remote_up JNull) (fault_at SelSync)"
        and d = example_db and uid = "''u1''"]
      store_failure_responses [where en = "example_env (remote_up JNull) (fault_at SelDisconnect)"
        and d = example_db and uid = "''u1''"]
      store_failure_responses [where en = "example_env (remote_up JNull) (fault_at SelDelete)"
        and d = example_db and uid = "''u1''"]
      store_failure_responses [where en = "example_env (remote_up JNull) (fault_at SelUsuario)"
        and d = example_db and uid = "''u2''"]
      store_failure_responses [where en = "example_env (remote_up JNull) (fault_at SelExisting)"
        and d = example_db and uid = "''u2''" and tel = "''5511888880000''"
        and u = "\<lparr>telefone = Some ''5511888880000''\<rparr>"]
      store_failure_responses [where en = "example_env (remote_up JNull) (fault_at InsertNew)"
        and d = example_db and uid = "''u2''" and tel = "''5511888880000''"
        and u = "\<lparr>telefone = Some ''5511888880000''\<rparr>"]
      store_failure_responses [where en = "example_env (remote_up JNull) (fault_at UpdStatus)"
        and d = example_db and uid = "''u1''" and tel = "''5511999990000''"
        and u = "\<lparr>telefone = Some ''5511999990000''\<rparr>" and inst = example_row]
      store_failure_responses [where en = "example_env (remote_up JNull) (fault_at UpdSync)"
        and d = example_db and uid = "''u1''" and inst = example_row]
      store_failure_responses [where en = "example_env (remote_up JNull) (fault_at UpdDisconnect)"
        and d = example_db and uid = "''u1''" and inst = example_row]
      store_failure_responses [where en = "example_env (remote_up JNull) (fault_at UpdDelete)"
        and d = example_db and uid = "''u1''" and inst = example_row]
    by (simp add: facts envs)
qed

text \<open>
  Claim C9 as stated fails: the store rejects Sync's update, and the answer is 200 and
  successful, with the store left as it was.
\<close>

theorem sync_update_failure_counterexample:
  "store_fails (example_env (remote_up (JStr ''connecting'')) (fault_at UpdSync)) UpdSync
   \<and> http_status (resp (sync_status
        (example_env (remote_up (JStr ''connecting'')) (fault_at UpdSync)) example_db ''u1''))
       = 200
   \<and> success (resp (sync_status
        (example_env (remote_up (JStr ''connecting'')) (fault_at UpdSync)) example_db ''u1''))
   \<and> db_after (sync_status
        (example_env (remote_up (JStr ''connecting'')) (fault_at UpdSync)) example_db ''u1'')
       = example_db"
  by (simp add: example_defs handler_defs poll_loop.simps)

end
